theory Spec2Isabelle
  imports Main "HOL-Library.Word" "HOL-Library.Char_ord"
begin

section \<open>Values, effects and exceptions\<close>

text \<open>
  The ingestion engine is TypeScript running on Node. Its functions are \<open>async\<close>: each
  either returns a value or throws, and on the way it calls external collaborators (the SFTP
  client, the S3 and DynamoDB clients, zlib, unzipper) and writes to the console.

  A computation is modelled as its outcome together with the list of external calls and
  console lines it has made, in order. The outcome is \<open>Inl e\<close> when the computation throws
  \<open>e\<close> and \<open>Inr v\<close> when it returns \<open>v\<close>. The collaborators are parameters of the
  model: a record holding, for every request, the answer the collaborator gives (a value or a
  thrown error).
\<close>

type_synonym byte = "8 word"
type_synonym buffer = "byte list"

text \<open>
  A thrown JavaScript value: an \<open>Error\<close> object with its \<open>name\<close> and \<open>message\<close>, or any
  other value, kept as the text \<open>String(value)\<close> gives for it.
\<close>

datatype thrown = JsError string string | JsValue string

text \<open>The values stored in a ledger item: strings and (integral) numbers.\<close>

datatype jsval = Str string | Num int

text \<open>\<^verbatim>\<open>error instanceof Error ? error.message : String(error)\<close>\<close>

fun error_text :: "thrown \<Rightarrow> string" where
  "error_text (JsError n m) = m"
| "error_text (JsValue s) = s"

definition ConfigurationError :: "string \<Rightarrow> thrown" where
  "ConfigurationError m = JsError ''ConfigurationError'' m"

definition SftpError :: "string \<Rightarrow> thrown" where
  "SftpError m = JsError ''SftpError'' m"

definition S3Error :: "string \<Rightarrow> thrown" where
  "S3Error m = JsError ''S3Error'' m"

definition CompressionError :: "string \<Rightarrow> thrown" where
  "CompressionError m = JsError ''CompressionError'' m"

text \<open>Connection options handed to the SFTP client.\<close>

record ConnectOptions =
  host :: string
  password :: string
  port :: nat
  username :: string

text \<open>
  What a run does to the outside world, one entry per call: the external requests with their
  arguments, and the console lines with their text and, for \<open>warn\<close> and \<open>error\<close>, the value
  printed after the text.
\<close>

datatype event =
    SftpConnect ConnectOptions
  | SftpList string
  | SftpGet string
  | SftpEnd
  | S3ListObjectsV2 string
  | S3PutObject string string buffer
  | S3AbortMultipartUpload string string "string option"
  | ZlibGunzip buffer
  | UnzipperOpen buffer
  | UnzipperEntryBuffer string
  | S3WriterPutObject string string buffer "nat option" "string option"
  | DdbGetItem string "(string \<times> jsval) list"
  | DdbPutItem string "(string \<times> jsval) list"
  | ConsoleLog string
  | ConsoleWarn string thrown
  | ConsoleError string thrown

type_synonym 'a io = "(thrown + 'a) \<times> event list"

definition io_return :: "'a \<Rightarrow> 'a io" where
  "io_return v = (Inr v, [])"

definition io_throw :: "thrown \<Rightarrow> 'a io" where
  "io_throw e = (Inl e, [])"

text \<open>An external call: the request is recorded, the collaborator's answer is the outcome.\<close>

definition io_call :: "event \<Rightarrow> thrown + 'a \<Rightarrow> 'a io" where
  "io_call ev answer = (answer, [ev])"

definition io_log :: "event \<Rightarrow> unit io" where
  "io_log ev = (Inr (), [ev])"

text \<open>Sequencing (\<open>await\<close>, then the rest): a throw skips the rest.\<close>

definition io_bind :: "'a io \<Rightarrow> ('a \<Rightarrow> 'b io) \<Rightarrow> 'b io" where
  "io_bind m f =
     (case fst m of
        Inl e \<Rightarrow> (Inl e, snd m)
      | Inr v \<Rightarrow> (fst (f v), snd m @ snd (f v)))"

text \<open>\<^verbatim>\<open>try { m } catch (error) { h(error) }\<close>\<close>

definition io_try_catch :: "'a io \<Rightarrow> (thrown \<Rightarrow> 'a io) \<Rightarrow> 'a io" where
  "io_try_catch m h =
     (case fst m of
        Inl e \<Rightarrow> (fst (h e), snd m @ snd (h e))
      | Inr v \<Rightarrow> (Inr v, snd m))"

text \<open>
  \<^verbatim>\<open>try { m } finally { fin }\<close>: \<open>fin\<close> runs on both exits of \<open>m\<close>; when \<open>fin\<close> itself
  throws, that throw replaces the outcome of \<open>m\<close>, otherwise the outcome of \<open>m\<close> stands.
\<close>

definition io_try_finally :: "'a io \<Rightarrow> unit io \<Rightarrow> 'a io" where
  "io_try_finally m fin =
     (case fst fin of
        Inl e \<Rightarrow> (Inl e, snd m @ snd fin)
      | Inr u \<Rightarrow> (fst m, snd m @ snd fin))"

section \<open>Strings\<close>

text \<open>
  File names and keys are sequences of code units. \<open>endsWith\<close> and \<open>slice(0, -n)\<close> are
  the methods of \<open>String.prototype\<close>; note that \<open>slice(0, -0)\<close> is \<open>slice(0, 0)\<close>, the
  empty string.
\<close>

definition endsWith :: "string \<Rightarrow> string \<Rightarrow> bool" where
  "endsWith s suffix =
     (length suffix \<le> length s \<and> drop (length s - length suffix) s = suffix)"

definition startsWith :: "string \<Rightarrow> string \<Rightarrow> bool" where
  "startsWith s p = (take (length p) s = p)"

definition slice_0_neg :: "string \<Rightarrow> nat \<Rightarrow> string" where
  "slice_0_neg s n = (if n = 0 then [] else take (length s - n) s)"

text \<open>
  The relational operators on two strings (ECMAScript \<open>IsLessThan\<close>): code unit by code
  unit, a proper prefix being smaller; \<open>a <= b\<close> is \<open>!(b < a)\<close>.
\<close>

fun js_str_lt :: "string \<Rightarrow> string \<Rightarrow> bool" where
  "js_str_lt [] [] = False"
| "js_str_lt [] (y # ys) = True"
| "js_str_lt (x # xs) [] = False"
| "js_str_lt (x # xs) (y # ys) =
     (if x = y then js_str_lt xs ys else (of_char x :: nat) < of_char y)"

definition js_str_le :: "string \<Rightarrow> string \<Rightarrow> bool" where
  "js_str_le a b = (\<not> js_str_lt b a)"

section \<open>FileProcessor\<close>

text \<open>
  \<^verbatim>\<open>FILENAME_PATTERN = /UsageAcct(\d{12})\.csv/\<close>. The pattern is not anchored, so
  \<open>exec\<close> returns the leftmost place of the name where the literal \<open>UsageAcct\<close>, twelve
  digits \<open>0\<close>..\<open>9\<close> and the literal \<open>.csv\<close> follow one another; group 1 is the twelve
  digits.
\<close>

definition isDigit :: "char \<Rightarrow> bool" where
  "isDigit c = (c \<in> set ''0123456789'')"

definition match_here :: "string \<Rightarrow> string option" where
  "match_here s =
     (if startsWith s ''UsageAcct''
         \<and> length (take 12 (drop 9 s)) = 12
         \<and> list_all isDigit (take 12 (drop 9 s))
         \<and> startsWith (drop 21 s) ''.csv''
      then Some (take 12 (drop 9 s)) else None)"

fun FILENAME_PATTERN_exec :: "string \<Rightarrow> string option" where
  "FILENAME_PATTERN_exec [] = match_here []"
| "FILENAME_PATTERN_exec (c # cs) =
     (case match_here (c # cs) of
        Some g \<Rightarrow> Some g
      | None \<Rightarrow> FILENAME_PATTERN_exec cs)"

definition isMatchingFilename :: "string \<Rightarrow> bool" where
  "isMatchingFilename filename = (FILENAME_PATTERN_exec filename \<noteq> None)"

definition extractTimestamp :: "string \<Rightarrow> string option" where
  "extractTimestamp filename =
     (case FILENAME_PATTERN_exec filename of Some g \<Rightarrow> Some g | None \<Rightarrow> None)"

definition GZIP_MAGIC_HEADER :: "byte list" where
  "GZIP_MAGIC_HEADER = [0x1f, 0x8b]"

text \<open>\<open>buffer[i]\<close>: the byte at \<open>i\<close>, or \<open>undefined\<close> (here \<open>None\<close>) past the end.\<close>

definition buffer_index :: "'a list \<Rightarrow> nat \<Rightarrow> 'a option" where
  "buffer_index b i = (if i < length b then Some (b ! i) else None)"

text \<open>
  \<^verbatim>\<open>buffer.length >= 2 && buffer[0] === HEADER[0] && buffer[1] === HEADER[1]\<close>,
  evaluated left to right with the short circuit of \<open>&&\<close>. The second component lists the
  indices of \<open>buffer\<close> that the evaluation reads.
\<close>

definition hasGzipMagicHeader_eval :: "buffer \<Rightarrow> bool \<times> nat list" where
  "hasGzipMagicHeader_eval b =
     (if \<not> 2 \<le> length b then (False, [])
      else if buffer_index b 0 \<noteq> buffer_index GZIP_MAGIC_HEADER 0 then (False, [0])
      else (buffer_index b 1 = buffer_index GZIP_MAGIC_HEADER 1, [0, 1]))"

definition hasGzipMagicHeader :: "buffer \<Rightarrow> bool" where
  "hasGzipMagicHeader b = fst (hasGzipMagicHeader_eval b)"

text \<open>
  \<open>removeSuffix(filename, suffix?)\<close>. Without a suffix the extension of the name is taken
  (\<open>path.extname\<close>, a function of Node and a parameter here).
\<close>

definition removeSuffix :: "(string \<Rightarrow> string) \<Rightarrow> string \<Rightarrow> string option \<Rightarrow> string" where
  "removeSuffix extname filename suffix =
     (let suffixToRemove = (case suffix of Some s \<Rightarrow> s | None \<Rightarrow> extname filename)
      in if endsWith filename suffixToRemove
         then slice_0_neg filename (length suffixToRemove)
         else filename)"

section \<open>The collaborators\<close>

text \<open>
  \<open>FileInfo\<close> is an entry of a directory listing as the SFTP client returns it; the engine
  reads its \<open>type\<close> (\<open>-\<close> for a regular file, \<open>d\<close> for a directory, \<open>l\<close> for a link)
  and its \<open>name\<close>, here the fields \<open>ftype\<close> and \<open>fname\<close>.
\<close>

record FileInfo =
  ftype :: string
  fname :: string
  size :: nat
  modifyTime :: int

record UploadableFile =
  buffer :: buffer
  name :: string

record ProcessingResult =
  success :: bool
  message :: string
  processedFiles :: nat
  skippedFiles :: nat

text \<open>An entry of an archive opened by unzipper: its type, its path, and what reading it gives.\<close>

record ZipEntry =
  entry_type :: string
  entry_path :: string
  entry_buffer :: "thrown + buffer"

text \<open>
  The answers of the collaborators of the handler. \<open>s3_listObjectsV2\<close> gives the
  \<open>Contents\<close> of the response (which may be absent), each item by its \<open>Key\<close> (which may
  be absent). \<open>localeCompare\<close> is the collation of the runtime.
\<close>

record env =
  sftp_connect :: "ConnectOptions \<Rightarrow> thrown + unit"
  sftp_list :: "string \<Rightarrow> thrown + FileInfo list"
  sftp_get :: "string \<Rightarrow> thrown + buffer"
  sftp_end :: "thrown + unit"
  s3_listObjectsV2 :: "string \<Rightarrow> thrown + string option list option"
  s3_putObject :: "string \<Rightarrow> string \<Rightarrow> buffer \<Rightarrow> thrown + unit"
  zlib_gunzip :: "buffer \<Rightarrow> thrown + buffer"
  unzipper_open :: "buffer \<Rightarrow> thrown + ZipEntry list"
  localeCompare :: "string \<Rightarrow> string \<Rightarrow> int"
  path_extname :: "string \<Rightarrow> string"

section \<open>FileProcessor.validateAndDecompressGzipBuffer\<close>

definition validateAndDecompressGzipBuffer :: "env \<Rightarrow> buffer \<Rightarrow> string \<Rightarrow> UploadableFile io" where
  "validateAndDecompressGzipBuffer E buf fileName =
     (if \<not> endsWith fileName ''.gz'' then io_return \<lparr>buffer = buf, name = fileName\<rparr>
      else if hasGzipMagicHeader buf then
        io_try_catch
          (io_bind (io_call (ZlibGunzip buf) (zlib_gunzip E buf)) (\<lambda>decompressedBuffer.
             io_return \<lparr>buffer = decompressedBuffer,
                        name = removeSuffix (path_extname E) fileName (Some ''.gz'')\<rparr>))
          (\<lambda>error. io_throw (CompressionError
             (''Gzip decompression failed for '' @ fileName @ '': '' @ error_text error)))
      else
        io_try_catch
          (io_bind (io_call (UnzipperOpen buf) (unzipper_open E buf)) (\<lambda>zip.
             case find (\<lambda>entry. entry_type entry = ''File'') zip of
               None \<Rightarrow> io_throw (CompressionError
                 (''No file entries found in ZIP for '' @ fileName))
             | Some fileEntry \<Rightarrow>
                 io_bind (io_call (UnzipperEntryBuffer (entry_path fileEntry))
                            (entry_buffer fileEntry)) (\<lambda>content.
                   io_return \<lparr>buffer = content,
                              name = removeSuffix (path_extname E) fileName (Some ''.gz'')\<rparr>)))
          (\<lambda>error. io_throw (CompressionError
             (''ZIP decompression failed for '' @ fileName @ '': '' @ error_text error))))"

section \<open>S3Service\<close>

text \<open>
  \<open>Array.prototype.sort\<close> with a comparator is stable: elements the comparator does not
  order keep their places. The model inserts from the right, an element going before the
  first one it does not follow.
\<close>

fun insert_by :: "('a \<Rightarrow> 'a \<Rightarrow> int) \<Rightarrow> 'a \<Rightarrow> 'a list \<Rightarrow> 'a list" where
  "insert_by cmp x [] = [x]"
| "insert_by cmp x (y # ys) =
     (if cmp x y \<le> 0 then x # y # ys else y # insert_by cmp x ys)"

definition sort_by :: "('a \<Rightarrow> 'a \<Rightarrow> int) \<Rightarrow> 'a list \<Rightarrow> 'a list" where
  "sort_by cmp xs = foldr (insert_by cmp) xs []"

text \<open>\<open>Key ?? ''\<close>\<close>

definition key_or_empty :: "string option \<Rightarrow> string" where
  "key_or_empty k = (case k of Some s \<Rightarrow> s | None \<Rightarrow> [])"

text \<open>\<open>item.Key && isMatchingFilename(item.Key)\<close>: an absent or empty key is falsy.\<close>

definition key_matches :: "string option \<Rightarrow> bool" where
  "key_matches k = (case k of None \<Rightarrow> False | Some s \<Rightarrow> s \<noteq> [] \<and> isMatchingFilename s)"

definition getLatestFile :: "env \<Rightarrow> string \<Rightarrow> string option io" where
  "getLatestFile E bucket =
     io_try_catch
       (io_bind (io_call (S3ListObjectsV2 bucket) (s3_listObjectsV2 E bucket)) (\<lambda>contents.
          case contents of
            None \<Rightarrow> io_return None
          | Some items \<Rightarrow>
              if length items = 0 then io_return None
              else (case sort_by (\<lambda>a b. localeCompare E (key_or_empty b) (key_or_empty a))
                           (filter key_matches items) of
                      [] \<Rightarrow> io_return None
                    | latestFile # rest \<Rightarrow> io_return latestFile)))
       (\<lambda>error. io_throw (S3Error
          (''Failed to fetch latest S3 file: '' @ error_text error)))"

definition uploadFile :: "env \<Rightarrow> string \<Rightarrow> UploadableFile \<Rightarrow> unit io" where
  "uploadFile E bucket file =
     io_try_catch
       (io_call (S3PutObject bucket (''sftp_user/'' @ name file) (buffer file))
                (s3_putObject E bucket (''sftp_user/'' @ name file) (buffer file)))
       (\<lambda>error. io_throw (S3Error
          (''Failed to upload file '' @ name file @ '': '' @ error_text error)))"

section \<open>SftpService\<close>

definition connect :: "env \<Rightarrow> ConnectOptions \<Rightarrow> unit io" where
  "connect E config =
     io_try_catch (io_call (SftpConnect config) (sftp_connect E config))
       (\<lambda>error. io_throw (SftpError
          (''Failed to connect to SFTP: '' @ error_text error)))"

definition listFiles :: "env \<Rightarrow> string \<Rightarrow> FileInfo list io" where
  "listFiles E directory =
     io_try_catch (io_call (SftpList directory) (sftp_list E directory))
       (\<lambda>error. io_throw (SftpError
          (''Failed to list files in '' @ directory @ '': '' @ error_text error)))"

definition downloadFile :: "env \<Rightarrow> string \<Rightarrow> buffer io" where
  "downloadFile E filePath =
     io_try_catch (io_call (SftpGet filePath) (sftp_get E filePath))
       (\<lambda>error. io_throw (SftpError
          (''Failed to download file '' @ filePath @ '': '' @ error_text error)))"

definition disconnect :: "env \<Rightarrow> unit io" where
  "disconnect E =
     io_try_catch (io_call SftpEnd (sftp_end E))
       (\<lambda>error. io_log (ConsoleWarn ''Failed to cleanly disconnect from SFTP:'' error))"

section \<open>SftpToS3Processor.processFiles\<close>

text \<open>
  \<^verbatim>\<open>!fileTimestamp || (latestS3Timestamp && fileTimestamp <= latestS3Timestamp)\<close>:
  \<open>null\<close> and the empty string are falsy.
\<close>

definition skipCondition :: "string option \<Rightarrow> string option \<Rightarrow> bool" where
  "skipCondition fileTimestamp latestS3Timestamp =
     (case fileTimestamp of
        None \<Rightarrow> True
      | Some t \<Rightarrow>
          t = [] \<or>
          (case latestS3Timestamp of
             None \<Rightarrow> False
           | Some w \<Rightarrow> w \<noteq> [] \<and> js_str_le t w))"

text \<open>
  The body of the inner \<open>try\<close>: download, normalise, upload, count, report. The two
  counters \<open>processedFiles\<close> and \<open>skippedFiles\<close> of the run are passed along as a pair.
\<close>

definition transferFile :: "env \<Rightarrow> string \<Rightarrow> string \<Rightarrow> nat \<times> nat \<Rightarrow> FileInfo \<Rightarrow> (nat \<times> nat) io" where
  "transferFile E s3Bucket sftpDir counters file =
     io_bind (downloadFile E (sftpDir @ ''/'' @ fname file)) (\<lambda>fileBuffer.
     io_bind (validateAndDecompressGzipBuffer E fileBuffer (fname file)) (\<lambda>fileToUpload.
     io_bind (uploadFile E s3Bucket fileToUpload) (\<lambda>u.
     io_bind (io_log (ConsoleLog (''Successfully uploaded '' @ name fileToUpload @ '' to S3''))) (\<lambda>u.
     io_return (fst counters + 1, snd counters)))))"

text \<open>The callback given to \<open>files.map\<close>.\<close>

definition processFile :: "env \<Rightarrow> string \<Rightarrow> string \<Rightarrow> string option \<Rightarrow> nat \<times> nat \<Rightarrow> FileInfo \<Rightarrow> (nat \<times> nat) io" where
  "processFile E s3Bucket sftpDir latestS3Timestamp counters file =
     (if ftype file \<noteq> ''-'' then io_return counters
      else if skipCondition (extractTimestamp (fname file)) latestS3Timestamp then
        io_bind (io_log (ConsoleLog
                   (''Skipping file '' @ fname file @ '' - older than latest S3 file''))) (\<lambda>u.
          io_return (fst counters, snd counters + 1))
      else
        io_try_catch (transferFile E s3Bucket sftpDir counters file)
          (\<lambda>error. io_bind (io_log (ConsoleError
                       (''Failed to process file '' @ fname file @ '':'') error)) (\<lambda>u.
             io_return counters)))"

text \<open>
  \<open>await Promise.all(files.map(callback))\<close>. The runtime starts every callback before
  any of them resumes: the downloads are requested first, in the order of the listing, and
  the normalisations, writes and reports follow as the answers arrive. The callbacks share
  nothing but the two counters, which each of them only increments, and \<open>Promise.all\<close>
  waits for all of them. The model runs the callbacks one after the other in the order of the
  listing: the outcome, the counters, the events that occur and the order of the downloads
  are those of the code, the order of the other events across files is that of one schedule.
\<close>

fun processAll :: "env \<Rightarrow> string \<Rightarrow> string \<Rightarrow> string option \<Rightarrow> nat \<times> nat \<Rightarrow> FileInfo list \<Rightarrow> (nat \<times> nat) io" where
  "processAll E s3Bucket sftpDir latestS3Timestamp counters [] = io_return counters"
| "processAll E s3Bucket sftpDir latestS3Timestamp counters (file # files) =
     io_bind (processFile E s3Bucket sftpDir latestS3Timestamp counters file) (\<lambda>counters'.
       processAll E s3Bucket sftpDir latestS3Timestamp counters' files)"

text \<open>\<open>latestS3File ? FileProcessor.extractTimestamp(latestS3File) : null\<close>\<close>

definition latestTimestamp :: "string option \<Rightarrow> string option" where
  "latestTimestamp latestS3File =
     (case latestS3File of
        None \<Rightarrow> None
      | Some k \<Rightarrow> if k = [] then None else extractTimestamp k)"

definition processFiles :: "env \<Rightarrow> string \<Rightarrow> string \<Rightarrow> ConnectOptions \<Rightarrow> ProcessingResult io" where
  "processFiles E s3Bucket sftpDir sftpConfig =
     io_try_finally
       (io_bind (connect E sftpConfig) (\<lambda>u.
        io_bind (listFiles E sftpDir) (\<lambda>files.
        io_bind (getLatestFile E s3Bucket) (\<lambda>latestS3File.
        io_bind (processAll E s3Bucket sftpDir (latestTimestamp latestS3File) (0, 0) files)
          (\<lambda>counters.
             io_return \<lparr>success = True, message = ''Files processed successfully'',
                        processedFiles = fst counters, skippedFiles = snd counters\<rparr>)))))
       (disconnect E)"

section \<open>lib/idempotency: the exact-strategy ledger\<close>



text \<open>A step that calls nothing outside but may throw.\<close>

definition io_eval :: "thrown + 'a \<Rightarrow> 'a io" where
  "io_eval answer = (answer, [])"



section \<open>lib/s3Writer: the sink writer\<close>

record UploadOptions =
  contentLength :: "nat option"
  contentType :: "string option"

text \<open>
  The two requests of the writer, and the \<open>UploadId\<close> property read off the caught error
  (\<open>(error as any)?.UploadId\<close>, absent on most errors).
\<close>

record writer_env =
  put_object :: "string \<Rightarrow> string \<Rightarrow> buffer \<Rightarrow> UploadOptions \<Rightarrow> thrown + unit"
  abort_multipart_upload :: "string \<Rightarrow> string \<Rightarrow> string option \<Rightarrow> thrown + unit"
  error_UploadId :: "thrown \<Rightarrow> string option"

definition upload :: "writer_env \<Rightarrow> string \<Rightarrow> string \<Rightarrow> buffer \<Rightarrow> UploadOptions \<Rightarrow> unit io" where
  "upload W bucket key body options =
     io_try_catch
       (io_call (S3WriterPutObject bucket key body (contentLength options) (contentType options))
                (put_object W bucket key body options))
       (\<lambda>error.
          io_bind
            (io_try_catch
               (io_call (S3AbortMultipartUpload bucket key (error_UploadId W error))
                        (abort_multipart_upload W bucket key (error_UploadId W error)))
               (\<lambda>abortError.
                  io_log (ConsoleError ''Failed to abort multipart upload:'' abortError)))
            (\<lambda>u. io_throw error))"

section \<open>The ingest handler: listRecursive\<close>

text \<open>
  The handle the ingest handler keeps for a remote file (its own interface \<open>FileInfo\<close>,
  with the fields \<open>path\<close>, \<open>size\<close> and \<open>mtime\<close>; here \<open>IngestFileInfo\<close> with
  \<open>path\<close>, \<open>file_size\<close> and \<open>mtime\<close>). \<open>mtime\<close> is the modification time of the
  listing entry, given in milliseconds, in whole seconds.
\<close>

record IngestFileInfo =
  path :: string
  file_size :: nat
  mtime :: int

definition handle_of :: "string \<Rightarrow> FileInfo \<Rightarrow> IngestFileInfo" where
  "handle_of dir item =
     \<lparr>path = dir @ ''/'' @ fname item, file_size = size item,
      mtime = modifyTime item div 1000\<rparr>"

text \<open>
  \<open>listRecursive(sftp, dir)\<close> lists \<open>dir\<close>, and for each entry in turn either descends
  (type \<open>d\<close>) or pushes a handle (any other type). The remote tree is the server's, so the
  recursion need not end: the model counts the nesting it may still enter and is \<open>None\<close>
  when that runs out. \<open>listItems\<close> is the \<open>for\<close> loop, given the function to descend
  with; a throw or a descent that does not return ends the loop there.
\<close>

fun listItems :: "(string \<Rightarrow> (IngestFileInfo list io) option) \<Rightarrow> string \<Rightarrow> FileInfo list
    \<Rightarrow> (IngestFileInfo list io) option" where
  "listItems descend dir [] = Some (Inr [], [])"
| "listItems descend dir (item # items) =
     (case (if ftype item = ''d'' then descend (dir @ ''/'' @ fname item)
            else Some (Inr [handle_of dir item], [])) of
        None \<Rightarrow> None
      | Some found \<Rightarrow>
          (case fst found of
             Inl e \<Rightarrow> Some (Inl e, snd found)
           | Inr pushed \<Rightarrow>
               (case listItems descend dir items of
                  None \<Rightarrow> None
                | Some others \<Rightarrow>
                    (case fst others of
                       Inl e \<Rightarrow> Some (Inl e, snd found @ snd others)
                     | Inr files \<Rightarrow> Some (Inr (pushed @ files), snd found @ snd others)))))"

fun listRecursive :: "nat \<Rightarrow> env \<Rightarrow> string \<Rightarrow> (IngestFileInfo list io) option" where
  "listRecursive 0 E dir = None"
| "listRecursive (Suc depth) E dir =
     (case sftp_list E dir of
        Inl e \<Rightarrow> Some (Inl e, [SftpList dir])
      | Inr list \<Rightarrow>
          (case listItems (listRecursive depth E) dir list of
             None \<Rightarrow> None
           | Some r \<Rightarrow> Some (fst r, SftpList dir # snd r)))"

section \<open>Predicates and scenarios used in the statements\<close>

text \<open>
  A buffer is not a readable archive when unzipper cannot open it, or finds no entry of type
  \<open>File\<close> in it, or cannot read the first such entry.
\<close>

definition archive_unreadable :: "env \<Rightarrow> buffer \<Rightarrow> bool" where
  "archive_unreadable E buf =
     (case unzipper_open E buf of
        Inl e \<Rightarrow> True
      | Inr entries \<Rightarrow>
          (case find (\<lambda>entry. entry_type entry = ''File'') entries of
             None \<Rightarrow> True
           | Some fileEntry \<Rightarrow> isl (entry_buffer fileEntry)))"

text \<open>
  Reading a trace: the console lines that report the outcome of a file (the engine prints one
  \<open>log\<close> line for a skipped and for an uploaded file and one \<open>error\<close> line for a failed
  one).
\<close>

fun is_failure_report :: "event \<Rightarrow> bool" where
  "is_failure_report (ConsoleError t e) = True"
| "is_failure_report ev = False"

fun is_report :: "event \<Rightarrow> bool" where
  "is_report (ConsoleError t e) = True"
| "is_report (ConsoleLog t) = True"
| "is_report ev = False"

text \<open>The paths a trace asks the SFTP server to send, and the directories it asks it to list.\<close>

fun fetched :: "event list \<Rightarrow> string list" where
  "fetched [] = []"
| "fetched (SftpGet p # evs) = p # fetched evs"
| "fetched (ev # evs) = fetched evs"

fun listed :: "event list \<Rightarrow> string list" where
  "listed [] = []"
| "listed (SftpList p # evs) = p # listed evs"
| "listed (ev # evs) = listed evs"

text \<open>
  The watermark of a run is the \<open>latestS3Timestamp\<close> that \<open>processFiles\<close> computes from
  the sink: the token of the key \<open>getLatestFile\<close> returns, if there is one. A listed entry
  is eligible for transfer when it is a regular file that the skip condition lets through.
\<close>

definition watermark :: "env \<Rightarrow> string \<Rightarrow> string option" where
  "watermark E bucket =
     (case fst (getLatestFile E bucket) of
        Inl e \<Rightarrow> None
      | Inr latestS3File \<Rightarrow> latestTimestamp latestS3File)"

definition eligible :: "env \<Rightarrow> string \<Rightarrow> FileInfo \<Rightarrow> bool" where
  "eligible E bucket f =
     (ftype f = ''-'' \<and> \<not> skipCondition (extractTimestamp (fname f)) (watermark E bucket))"

text \<open>
  A run to compute with. The directory \<open>/upload\<close> lists three regular files, all newer
  than the one key in the bucket; the second cannot be downloaded. Nothing here is gzip or an
  archive.
\<close>

definition cfg_ex :: ConnectOptions where
  "cfg_ex = \<lparr>host = ''sftp.example'', password = ''secret'', port = 22, username = ''sftpuser''\<rparr>"

definition entry_ex :: "string \<Rightarrow> string \<Rightarrow> FileInfo" where
  "entry_ex t n = \<lparr>ftype = t, fname = n, size = 3, modifyTime = 0\<rparr>"

definition files_iso :: "FileInfo list" where
  "files_iso =
     [entry_ex ''-'' ''UsageAcct202401020000.csv'',
      entry_ex ''-'' ''UsageAcct202401030000.csv'',
      entry_ex ''-'' ''UsageAcct202401040000.csv'']"

definition env_iso :: env where
  "env_iso =
     \<lparr>sftp_connect = (\<lambda>c. Inr ()),
      sftp_list = (\<lambda>d. if d = ''/upload'' then Inr files_iso
                        else Inl (JsError ''Error'' ''No such file'')),
      sftp_get = (\<lambda>p. if p = ''/upload/UsageAcct202401030000.csv''
                       then Inl (JsError ''Error'' ''Permission denied'')
                       else Inr [1, 2, 3]),
      sftp_end = Inr (),
      s3_listObjectsV2 = (\<lambda>b. Inr (Some [Some ''sftp_user/UsageAcct202401010000.csv''])),
      s3_putObject = (\<lambda>b k body. Inr ()),
      zlib_gunzip = (\<lambda>b. Inl (JsError ''Error'' ''incorrect header check'')),
      unzipper_open = (\<lambda>b. Inl (JsError ''Error'' ''FILE_ENDED'')),
      localeCompare = (\<lambda>a b. 0),
      path_extname = (\<lambda>s. [])\<rparr>"

text \<open>
  A remote tree with a subdirectory: \<open>/upload\<close> holds the directory \<open>archive\<close> and one
  file, \<open>/upload/archive\<close> holds another file.
\<close>

definition env_tree :: env where
  "env_tree =
     env_iso\<lparr>sftp_list := (\<lambda>d.
                if d = ''/upload''
                then Inr [entry_ex ''d'' ''archive'', entry_ex ''-'' ''UsageAcct202401020000.csv'']
                else if d = ''/upload/archive''
                then Inr [entry_ex ''-'' ''UsageAcct202402010000.csv'']
                else Inl (JsError ''Error'' ''No such file'')),
              sftp_get := (\<lambda>p. Inr [1, 2, 3])\<rparr>"

text \<open>
  A stand-in for zlib, enough to run the normaliser: a stream is the two magic bytes followed
  by the content.
\<close>

definition env_gz :: env where
  "env_gz =
     env_iso\<lparr>zlib_gunzip := (\<lambda>b. if take 2 b = [0x1f, 0x8b] then Inr (drop 2 b)
                               else Inl (JsError ''Error'' ''incorrect header check''))\<rparr>"


definition writer_down :: writer_env where
  "writer_down =
     \<lparr>put_object = (\<lambda>bucket key body options. Inl (JsError ''Error'' ''AccessDenied'')),
      abort_multipart_upload = (\<lambda>bucket key uploadId. Inl (JsError ''Error'' ''Missing UploadId'')),
      error_UploadId = (\<lambda>e. None)\<rparr>"

text \<open>
  The files of the remote tree under a directory, as the listings of the server describe it:
  the entries of the directory that are not directories, and the files of the tree under
  each entry that is one.
\<close>

inductive in_tree :: "env \<Rightarrow> string \<Rightarrow> IngestFileInfo \<Rightarrow> bool" for E :: env where
  entry: "sftp_list E dir = Inr items \<Longrightarrow> item \<in> set items \<Longrightarrow> ftype item \<noteq> ''d'' \<Longrightarrow>
            in_tree E dir (handle_of dir item)"
| below: "sftp_list E dir = Inr items \<Longrightarrow> item \<in> set items \<Longrightarrow> ftype item = ''d'' \<Longrightarrow>
            in_tree E (dir @ ''/'' @ fname item) h \<Longrightarrow> in_tree E dir h"

section \<open>Facts about computations\<close>

lemma io_bind_simps:
  "fst m = Inl e \<Longrightarrow> io_bind m f = (Inl e, snd m)"
  "fst m = Inr v \<Longrightarrow> io_bind m f = (fst (f v), snd m @ snd (f v))"
  by (simp_all add: io_bind_def)

lemma io_try_catch_simps:
  "fst m = Inl e \<Longrightarrow> io_try_catch m h = (fst (h e), snd m @ snd (h e))"
  "fst m = Inr v \<Longrightarrow> io_try_catch m h = (Inr v, snd m)"
  by (simp_all add: io_try_catch_def)

section \<open>Decompression\<close>

lemma hasGzipMagicHeader_take:
  "hasGzipMagicHeader b \<longleftrightarrow> take 2 b = GZIP_MAGIC_HEADER"
proof (cases b)
  case Nil
  then show ?thesis
    by (simp add: hasGzipMagicHeader_def hasGzipMagicHeader_eval_def GZIP_MAGIC_HEADER_def)
next
  case (Cons x xs)
  then show ?thesis
    by (cases xs)
       (auto simp add: hasGzipMagicHeader_def hasGzipMagicHeader_eval_def buffer_index_def
          GZIP_MAGIC_HEADER_def)
qed

lemma removeSuffix_gz:
  "endsWith fileName ''.gz'' \<Longrightarrow>
     removeSuffix ext fileName (Some ''.gz'') = take (length fileName - 3) fileName"
  by (simp add: removeSuffix_def slice_0_neg_def eval_nat_numeral)

lemma removeSuffix_gz_append:
  "endsWith fileName ''.gz'' \<Longrightarrow> removeSuffix ext fileName (Some ''.gz'') @ ''.gz'' = fileName"
proof -
  assume a: "endsWith fileName ''.gz''"
  then have "drop (length fileName - 3) fileName = ''.gz''"
    by (simp add: endsWith_def eval_nat_numeral)
  then have "take (length fileName - 3) fileName @ ''.gz'' = fileName"
    by (metis append_take_drop_id)
  with a show ?thesis by (simp add: removeSuffix_gz)
qed

lemma gunzip_succeeds:
  assumes "endsWith fileName ''.gz''" "take 2 G = GZIP_MAGIC_HEADER" "zlib_gunzip E G = Inr C"
  shows "validateAndDecompressGzipBuffer E G fileName =
           (Inr \<lparr>buffer = C, name = removeSuffix (path_extname E) fileName (Some ''.gz'')\<rparr>,
            [ZlibGunzip G])"
  using assms
  by (simp add: validateAndDecompressGzipBuffer_def hasGzipMagicHeader_take io_try_catch_def
      io_bind_def io_call_def io_return_def)

lemma gunzip_fails:
  assumes "endsWith fileName ''.gz''" "hasGzipMagicHeader buf" "zlib_gunzip E buf = Inl e"
  shows "validateAndDecompressGzipBuffer E buf fileName =
           (Inl (CompressionError
                   (''Gzip decompression failed for '' @ fileName @ '': '' @ error_text e)),
            [ZlibGunzip buf])"
  using assms
  by (simp add: validateAndDecompressGzipBuffer_def io_try_catch_def
      io_bind_def io_call_def io_return_def io_throw_def)

lemma unzip_fails:
  assumes "endsWith fileName ''.gz''" "\<not> hasGzipMagicHeader buf" "archive_unreadable E buf"
  shows "\<exists>detail. fst (validateAndDecompressGzipBuffer E buf fileName) =
           Inl (CompressionError
                  (''ZIP decompression failed for '' @ fileName @ '': '' @ detail))"
  using assms
  by (auto simp add: validateAndDecompressGzipBuffer_def io_try_catch_def archive_unreadable_def
      io_bind_def io_call_def io_return_def io_throw_def CompressionError_def isl_def
      split: sum.splits option.splits)

lemma unzip_trace:
  assumes "endsWith fileName ''.gz''" "\<not> hasGzipMagicHeader buf"
  shows "\<exists>rest. snd (validateAndDecompressGzipBuffer E buf fileName) = UnzipperOpen buf # rest
           \<and> ZlibGunzip buf \<notin> set rest"
  using assms
  by (auto simp add: validateAndDecompressGzipBuffer_def io_try_catch_def
      io_bind_def io_call_def io_return_def io_throw_def
      split: sum.splits option.splits)

section \<open>One file, then all of them\<close>

lemma downloadFile_trace: "snd (downloadFile E p) = [SftpGet p]"
  by (simp add: downloadFile_def io_try_catch_def io_call_def io_throw_def split: sum.splits)

lemma validate_no_report:
  "filter is_report (snd (validateAndDecompressGzipBuffer E b n)) = []"
  "filter is_failure_report (snd (validateAndDecompressGzipBuffer E b n)) = []"
  by (simp_all add: validateAndDecompressGzipBuffer_def io_try_catch_def io_bind_def io_call_def io_throw_def io_return_def
     split: sum.splits option.splits)

lemma uploadFile_trace: "snd (uploadFile E b f) = [S3PutObject b (''sftp_user/'' @ name f) (buffer f)]"
  by (simp add: uploadFile_def io_try_catch_def io_call_def io_throw_def split: sum.splits)

lemma transferFile_Inr:
  "fst (transferFile E b d c f) = Inr c' \<Longrightarrow> c' = (fst c + 1, snd c) \<and> length (filter is_report (snd (transferFile E b d c f))) = 1
     \<and> filter is_failure_report (snd (transferFile E b d c f)) = []"
  unfolding transferFile_def
  by (auto simp add: io_bind_def io_return_def io_log_def downloadFile_trace uploadFile_trace validate_no_report split: sum.splits)

lemma transferFile_Inl:
  "fst (transferFile E b d c f) = Inl e \<Longrightarrow> filter is_report (snd (transferFile E b d c f)) = []
     \<and> filter is_failure_report (snd (transferFile E b d c f)) = []"
  unfolding transferFile_def
  by (auto simp add: io_bind_def io_return_def io_log_def downloadFile_trace uploadFile_trace validate_no_report split: sum.splits)

lemma transferFile_starts:
  "\<exists>rest. snd (transferFile E b d c f) = SftpGet (d @ ''/'' @ fname f) # rest"
  unfolding transferFile_def
  by (auto simp add: io_bind_def io_return_def io_log_def downloadFile_trace split: sum.splits)


lemma processFile_other:
  "ftype f \<noteq> ''-'' \<Longrightarrow> processFile E b d w c f = (Inr c, [])"
  by (simp add: processFile_def io_return_def)

lemma processFile_skip:
  "ftype f = ''-'' \<Longrightarrow> skipCondition (extractTimestamp (fname f)) w \<Longrightarrow>
     processFile E b d w c f =
       (Inr (fst c, snd c + 1),
        [ConsoleLog (''Skipping file '' @ fname f @ '' - older than latest S3 file'')])"
  by (simp add: processFile_def io_return_def io_bind_def io_log_def)

lemma processFile_ok:
  "ftype f = ''-'' \<Longrightarrow> \<not> skipCondition (extractTimestamp (fname f)) w \<Longrightarrow>
     fst (transferFile E b d c f) = Inr c' \<Longrightarrow>
     processFile E b d w c f = (Inr (fst c + 1, snd c), snd (transferFile E b d c f))"
  using transferFile_Inr [of E b d c f c']
  by (simp add: processFile_def io_try_catch_def)

lemma processFile_failed:
  "ftype f = ''-'' \<Longrightarrow> \<not> skipCondition (extractTimestamp (fname f)) w \<Longrightarrow>
     fst (transferFile E b d c f) = Inl e \<Longrightarrow>
     processFile E b d w c f =
       (Inr c, snd (transferFile E b d c f) @
               [ConsoleError (''Failed to process file '' @ fname f @ '':'') e])"
  by (simp add: processFile_def io_try_catch_def io_bind_def io_log_def io_return_def)

lemma processFile_returns: "\<exists>c'. fst (processFile E b d w c f) = Inr c'"
proof (cases "ftype f = ''-''")
  case False
  then show ?thesis by (simp add: processFile_other)
next
  case reg: True
  show ?thesis
  proof (cases "skipCondition (extractTimestamp (fname f)) w")
    case True
    with reg show ?thesis by (simp add: processFile_skip)
  next
    case False
    with reg show ?thesis
      by (cases "fst (transferFile E b d c f)") (simp_all add: processFile_ok processFile_failed)
  qed
qed

lemma processFile_counts:
  "\<exists>c'. fst (processFile E b d w c f) = Inr c'
     \<and> fst c' + snd c' + length (filter is_failure_report (snd (processFile E b d w c f)))
         = fst c + snd c + (if ftype f = ''-'' then 1 else 0)
     \<and> length (filter is_report (snd (processFile E b d w c f)))
         = (if ftype f = ''-'' then 1 else 0)"
proof (cases "ftype f = ''-''")
  case False
  then show ?thesis by (simp add: processFile_other)
next
  case reg: True
  show ?thesis
  proof (cases "skipCondition (extractTimestamp (fname f)) w")
    case True
    with reg show ?thesis by (simp add: processFile_skip)
  next
    case noskip: False
    show ?thesis
    proof (cases "fst (transferFile E b d c f)")
      case (Inl e)
      with reg noskip transferFile_Inl [OF Inl] show ?thesis
        by (simp add: processFile_failed)
    next
      case (Inr c')
      with reg noskip transferFile_Inr [OF Inr] show ?thesis
        by (simp add: processFile_ok)
    qed
  qed
qed

lemma processAll_counts:
  "\<exists>c'. fst (processAll E b d w c files) = Inr c'
     \<and> fst c' + snd c' + length (filter is_failure_report (snd (processAll E b d w c files)))
         = fst c + snd c + length (filter (\<lambda>f. ftype f = ''-'') files)
     \<and> length (filter is_report (snd (processAll E b d w c files)))
         = length (filter (\<lambda>f. ftype f = ''-'') files)"
proof (induction files arbitrary: c)
  case Nil
  then show ?case by (simp add: io_return_def)
next
  case (Cons f files)
  obtain c1 where c1: "fst (processFile E b d w c f) = Inr c1"
    "fst c1 + snd c1 + length (filter is_failure_report (snd (processFile E b d w c f)))
         = fst c + snd c + (if ftype f = ''-'' then 1 else 0)"
    "length (filter is_report (snd (processFile E b d w c f)))
         = (if ftype f = ''-'' then 1 else 0)"
    using processFile_counts [of E b d w c f] by blast
  obtain c2 where c2: "fst (processAll E b d w c1 files) = Inr c2"
    "fst c2 + snd c2 + length (filter is_failure_report (snd (processAll E b d w c1 files)))
         = fst c1 + snd c1 + length (filter (\<lambda>f. ftype f = ''-'') files)"
    "length (filter is_report (snd (processAll E b d w c1 files)))
         = length (filter (\<lambda>f. ftype f = ''-'') files)"
    using Cons.IH [of c1] by blast
  have step: "processAll E b d w c (f # files) =
          (Inr c2, snd (processFile E b d w c f) @ snd (processAll E b d w c1 files))"
    using c1(1) c2(1) by (simp add: io_bind_simps(2))
  show ?case
    unfolding step using c1(2,3) c2(2,3) by (cases "ftype f = ''-''") simp_all
qed

section \<open>The whole run\<close>

lemma fetched_append: "fetched (xs @ ys) = fetched xs @ fetched ys"
  by (induction xs rule: fetched.induct) simp_all

lemma listed_append: "listed (xs @ ys) = listed xs @ listed ys"
  by (induction xs rule: listed.induct) simp_all

lemma validate_no_sftp:
  "fetched (snd (validateAndDecompressGzipBuffer E b n)) = []"
  "listed (snd (validateAndDecompressGzipBuffer E b n)) = []"
  by (simp_all add: validateAndDecompressGzipBuffer_def io_try_catch_def io_bind_def io_call_def
      io_throw_def io_return_def split: sum.splits option.splits)

lemma transferFile_sftp:
  "fetched (snd (transferFile E b d c f)) = [d @ ''/'' @ fname f]"
  "listed (snd (transferFile E b d c f)) = []"
  unfolding transferFile_def
  by (auto simp add: io_bind_def io_return_def io_log_def downloadFile_trace uploadFile_trace
      validate_no_sftp fetched_append listed_append split: sum.splits)

lemma processFile_sftp:
  "fetched (snd (processFile E b d w c f)) =
     (if ftype f = ''-'' \<and> \<not> skipCondition (extractTimestamp (fname f)) w
      then [d @ ''/'' @ fname f] else [])"
  "listed (snd (processFile E b d w c f)) = []"
  by (cases "fst (transferFile E b d c f)";
      simp add: processFile_def io_return_def io_bind_def io_log_def io_try_catch_def
        transferFile_sftp fetched_append listed_append)+

lemma processAll_step:
  "\<exists>c1. fst (processFile E b d w c f) = Inr c1 \<and>
     snd (processAll E b d w c (f # files)) =
       snd (processFile E b d w c f) @ snd (processAll E b d w c1 files)"
proof -
  obtain c1 where c1: "fst (processFile E b d w c f) = Inr c1"
    using processFile_returns by blast
  then show ?thesis by (simp add: io_bind_simps(2))
qed


lemma processAll_listed: "listed (snd (processAll E b d w c files)) = []"
proof (induction files arbitrary: c)
  case Nil
  show ?case by (simp add: io_return_def)
next
  case (Cons f files)
  obtain c1 where step: "snd (processAll E b d w c (f # files)) =
          snd (processFile E b d w c f) @ snd (processAll E b d w c1 files)"
    using processAll_step by blast
  show ?case unfolding step by (simp add: listed_append processFile_sftp Cons.IH)
qed

lemma getLatestFile_ok:
  "s3_listObjectsV2 E b = Inr contents \<Longrightarrow>
     \<exists>k. getLatestFile E b = (Inr k, [S3ListObjectsV2 b])"
  by (simp add: getLatestFile_def io_try_catch_def io_bind_def io_call_def io_return_def
      split: option.splits list.splits)

lemma getLatestFile_trace: "snd (getLatestFile E b) = [S3ListObjectsV2 b]"
  by (simp add: getLatestFile_def io_try_catch_def io_bind_def io_call_def io_return_def io_throw_def
      split: option.splits list.splits sum.splits)

lemma disconnect_returns: "fst (disconnect E) = Inr ()"
  by (simp add: disconnect_def io_try_catch_def io_call_def io_log_def split: sum.splits)

lemma disconnect_trace:
  "snd (disconnect E) =
     (case sftp_end E of
        Inr u \<Rightarrow> [SftpEnd]
      | Inl e \<Rightarrow> [SftpEnd, ConsoleWarn ''Failed to cleanly disconnect from SFTP:'' e])"
  by (simp add: disconnect_def io_try_catch_def io_call_def io_log_def split: sum.splits)

lemma processFiles_run:
  assumes "sftp_connect E cfg = Inr ()" "sftp_list E d = Inr files"
    "s3_listObjectsV2 E b = Inr contents"
  shows "\<exists>c. fst (processAll E b d (watermark E b) (0, 0) files) = Inr c \<and>
     processFiles E b d cfg =
       (Inr \<lparr>success = True, message = ''Files processed successfully'',
             processedFiles = fst c, skippedFiles = snd c\<rparr>,
        [SftpConnect cfg, SftpList d, S3ListObjectsV2 b]
        @ snd (processAll E b d (watermark E b) (0, 0) files) @ snd (disconnect E))"
proof -
  obtain k where k: "getLatestFile E b = (Inr k, [S3ListObjectsV2 b])"
    using getLatestFile_ok [OF assms(3)] by blast
  then have w: "watermark E b = latestTimestamp k"
    by (simp add: watermark_def)
  obtain c where c: "fst (processAll E b d (latestTimestamp k) (0, 0) files) = Inr c"
    using processAll_counts [of E b d "latestTimestamp k" "(0, 0)" files] by blast
  have "processFiles E b d cfg =
       (Inr \<lparr>success = True, message = ''Files processed successfully'',
             processedFiles = fst c, skippedFiles = snd c\<rparr>,
        [SftpConnect cfg, SftpList d, S3ListObjectsV2 b]
        @ snd (processAll E b d (latestTimestamp k) (0, 0) files) @ snd (disconnect E))"
    using assms(1,2) k c
    by (simp add: processFiles_def io_try_finally_def disconnect_returns connect_def listFiles_def
        io_try_catch_def io_call_def io_bind_def io_return_def)
  with c w show ?thesis by simp
qed


lemma disconnect_no_report:
  "filter is_report (snd (disconnect E)) = []"
  "filter is_failure_report (snd (disconnect E)) = []"
  "fetched (snd (disconnect E)) = []"
  "listed (snd (disconnect E)) = []"
  by (simp_all add: disconnect_trace split: sum.splits)







section \<open>Claims about the run\<close>






section \<open>Timestamp tokens and their order\<close>

lemma match_here_length: "match_here s = Some t \<Longrightarrow> length t = 12"
  by (auto simp add: match_here_def split: if_splits)

lemma FILENAME_PATTERN_exec_length: "FILENAME_PATTERN_exec s = Some t \<Longrightarrow> length t = 12"
  by (induction s) (auto simp add: match_here_length split: option.splits)

lemma extractTimestamp_length: "extractTimestamp s = Some t \<Longrightarrow> length t = 12"
  by (auto simp add: extractTimestamp_def FILENAME_PATTERN_exec_length split: option.splits)

lemma extractTimestamp_Nil: "extractTimestamp [] = None"
  by (simp add: extractTimestamp_def match_here_def startsWith_def)

lemma js_str_lt_lexordp: "js_str_lt a b \<longleftrightarrow> ord_class.lexordp a b"
  by (induction a b rule: js_str_lt.induct) (auto simp add: less_char_def [symmetric])

lemma js_str_le_lexordp_eq: "js_str_le a b \<longleftrightarrow> lexordp_eq a b"
  using lexordp_conv_lexordp_eq [of b a] lexordp_eq_linear [of a b]
  by (auto simp add: js_str_le_def js_str_lt_lexordp)

lemma js_str_le_refl: "js_str_le a a"
  by (simp add: js_str_le_lexordp_eq lexordp_eq_refl)

lemma skipCondition_tokens:
  assumes "extractTimestamp n = Some t" "extractTimestamp k = Some w"
  shows "skipCondition (extractTimestamp n) (latestTimestamp (Some k)) = js_str_le t w"
proof -
  have "t \<noteq> []" "w \<noteq> []" "k \<noteq> []"
    using assms extractTimestamp_length extractTimestamp_Nil by fastforce+
  with assms show ?thesis
    by (simp add: skipCondition_def latestTimestamp_def)
qed

lemma processFile_skip_iff:
  assumes "ftype f = ''-''"
  shows "processFile E b d w c f =
           (Inr (fst c, snd c + 1),
            [ConsoleLog (''Skipping file '' @ fname f @ '' - older than latest S3 file'')])
         \<longleftrightarrow> skipCondition (extractTimestamp (fname f)) w"
proof (cases "skipCondition (extractTimestamp (fname f)) w")
  case True
  with assms show ?thesis by (simp add: processFile_skip)
next
  case False
  have "fetched (snd (processFile E b d w c f)) = [d @ ''/'' @ fname f]"
    using assms False by (simp add: processFile_sftp)
  then have "snd (processFile E b d w c f) \<noteq>
      [ConsoleLog (''Skipping file '' @ fname f @ '' - older than latest S3 file'')]"
    by auto
  with False show ?thesis by auto
qed

section \<open>Claims about the watermark\<close>

text \<open>
  Claim C3 (watermark comparison). Take a regular file whose name carries the token \<open>t\<close>,
  and let the latest key of the sink carry the token \<open>w\<close>, the watermark of the run. The
  file is skipped (counted in \<open>skippedFiles\<close> and reported, nothing fetched) exactly when
  \<open>t <= w\<close> in the string order of JavaScript, and that order is the lexicographic order on
  the code units of the two tokens. A token equal to the watermark is skipped: the boundary
  is included. \<open>202401010000 <= 202401020000\<close> holds and the converse does not, so the
  second token is the newer one.
\<close>

theorem watermark_comparison_inclusive:
  assumes "ftype f = ''-''" and "extractTimestamp (fname f) = Some t"
    and "extractTimestamp latestS3File = Some w"
  shows "(processFile E b d (latestTimestamp (Some latestS3File)) c f =
            (Inr (fst c, snd c + 1),
             [ConsoleLog (''Skipping file '' @ fname f @ '' - older than latest S3 file'')]))
           = js_str_le t w
     \<and> js_str_le t w = lexordp_eq t w
     \<and> (t = w \<longrightarrow> js_str_le t w)
     \<and> js_str_le ''202401010000'' ''202401020000''
     \<and> \<not> js_str_le ''202401020000'' ''202401010000''"
proof -
  have "(processFile E b d (latestTimestamp (Some latestS3File)) c f =
            (Inr (fst c, snd c + 1),
             [ConsoleLog (''Skipping file '' @ fname f @ '' - older than latest S3 file'')]))
           = js_str_le t w"
    using processFile_skip_iff [OF assms(1)] skipCondition_tokens [OF assms(2,3)] by simp
  moreover have "js_str_le ''202401010000'' ''202401020000''"
    by (simp add: js_str_le_def)
  moreover have "\<not> js_str_le ''202401020000'' ''202401010000''"
    by (simp add: js_str_le_def)
  ultimately show ?thesis
    by (simp add: js_str_le_lexordp_eq lexordp_eq_refl)
qed

theorem watermark_comparison_inclusive_witness:
  "ftype (entry_ex ''-'' ''UsageAcct202401020000.csv'') = ''-''
   \<and> extractTimestamp (fname (entry_ex ''-'' ''UsageAcct202401020000.csv'')) = Some ''202401020000''
   \<and> extractTimestamp (fname (entry_ex ''-'' ''UsageAcct202401010000.csv'')) = Some ''202401010000''
   \<and> extractTimestamp ''sftp_user/UsageAcct202401010000.csv'' = Some ''202401010000''
   \<and> processFile env_iso ''bucket'' ''/upload''
        (latestTimestamp (Some ''sftp_user/UsageAcct202401010000.csv'')) (0, 0)
        (entry_ex ''-'' ''UsageAcct202401020000.csv'')
       \<noteq> (Inr (0, 1),
           [ConsoleLog ''Skipping file UsageAcct202401020000.csv - older than latest S3 file''])
   \<and> processFile env_iso ''bucket'' ''/upload''
        (latestTimestamp (Some ''sftp_user/UsageAcct202401010000.csv'')) (0, 0)
        (entry_ex ''-'' ''UsageAcct202401010000.csv'')
       = (Inr (0, 1),
          [ConsoleLog ''Skipping file UsageAcct202401010000.csv - older than latest S3 file''])"
proof -
  have r1: "ftype (entry_ex ''-'' ''UsageAcct202401020000.csv'') = ''-''" by code_simp
  have r2: "ftype (entry_ex ''-'' ''UsageAcct202401010000.csv'') = ''-''" by code_simp
  have t1: "extractTimestamp (fname (entry_ex ''-'' ''UsageAcct202401020000.csv'')) = Some ''202401020000''"
    by code_simp
  have t2: "extractTimestamp (fname (entry_ex ''-'' ''UsageAcct202401010000.csv'')) = Some ''202401010000''"
    by code_simp
  have tw: "extractTimestamp ''sftp_user/UsageAcct202401010000.csv'' = Some ''202401010000''"
    by code_simp
  have n1: "''Skipping file '' @ fname (entry_ex ''-'' ''UsageAcct202401020000.csv'') @ '' - older than latest S3 file''
     = ''Skipping file UsageAcct202401020000.csv - older than latest S3 file''" by code_simp
  have n2: "''Skipping file '' @ fname (entry_ex ''-'' ''UsageAcct202401010000.csv'') @ '' - older than latest S3 file''
     = ''Skipping file UsageAcct202401010000.csv - older than latest S3 file''" by code_simp
  have newer: "\<not> js_str_le ''202401020000'' ''202401010000''" by code_simp
  have equal: "js_str_le ''202401010000'' ''202401010000''" by code_simp
  from watermark_comparison_inclusive [OF r1 t1 tw, of env_iso "''bucket''" "''/upload''" "(0, 0)"] newer
  have a: "processFile env_iso ''bucket'' ''/upload''
        (latestTimestamp (Some ''sftp_user/UsageAcct202401010000.csv'')) (0, 0)
        (entry_ex ''-'' ''UsageAcct202401020000.csv'')
       \<noteq> (Inr (0, 1),
           [ConsoleLog ''Skipping file UsageAcct202401020000.csv - older than latest S3 file''])"
    unfolding n1 by simp
  from watermark_comparison_inclusive [OF r2 t2 tw, of env_iso "''bucket''" "''/upload''" "(0, 0)"] equal
  have b: "processFile env_iso ''bucket'' ''/upload''
        (latestTimestamp (Some ''sftp_user/UsageAcct202401010000.csv'')) (0, 0)
        (entry_ex ''-'' ''UsageAcct202401010000.csv'')
       = (Inr (0, 1),
          [ConsoleLog ''Skipping file UsageAcct202401010000.csv - older than latest S3 file''])"
    unfolding n2 by simp
  from r1 t1 t2 tw a b show ?thesis by blast
qed

text \<open>
  Claim C4, as stated, fails. \<open>notes.txt\<close> does not match the pattern; it is skipped with
  the console line \<open>Skipping file notes.txt - older than latest S3 file\<close>, the line a
  file at the watermark gets: it is reported as older than the watermark, with no reason of
  its own.
\<close>

theorem unmatched_name_distinct_reason_counterexample:
  "extractTimestamp ''notes.txt'' = None
   \<and> extractTimestamp ''UsageAcct202401010000.csv'' = Some ''202401010000''
   \<and> processFile env_iso ''bucket'' ''/upload'' (Some ''202401010000'') (0, 0)
        (entry_ex ''-'' ''notes.txt'')
       = (Inr (0, 1), [ConsoleLog ''Skipping file notes.txt - older than latest S3 file''])
   \<and> processFile env_iso ''bucket'' ''/upload'' (Some ''202401010000'') (0, 0)
        (entry_ex ''-'' ''UsageAcct202401010000.csv'')
       = (Inr (0, 1),
          [ConsoleLog ''Skipping file UsageAcct202401010000.csv - older than latest S3 file''])"
  by code_simp

text \<open>
  Claim C4, amended. Every regular file whose name does not match the pattern is skipped,
  whatever the watermark: it is counted in \<open>skippedFiles\<close>, nothing is fetched, and the
  console receives \<open>Skipping file <name> - older than latest S3 file\<close>. That is the
  same report, with the same reason, as for a file whose token is not above the watermark.
\<close>

theorem unmatched_name_skipped_as_older:
  assumes "ftype f = ''-''" and "extractTimestamp (fname f) = None"
  shows "processFile E b d w c f =
           (Inr (fst c, snd c + 1),
            [ConsoleLog (''Skipping file '' @ fname f @ '' - older than latest S3 file'')])
     \<and> (\<forall>g t wm. ftype g = ''-'' \<and> extractTimestamp (fname g) = Some t
            \<and> w = Some wm \<and> wm \<noteq> [] \<and> js_str_le t wm \<longrightarrow>
          processFile E b d w c g =
            (Inr (fst c, snd c + 1),
             [ConsoleLog (''Skipping file '' @ fname g @ '' - older than latest S3 file'')]))"
proof -
  have "skipCondition (extractTimestamp (fname f)) w"
    using assms(2) by (simp add: skipCondition_def)
  then have first: "processFile E b d w c f =
           (Inr (fst c, snd c + 1),
            [ConsoleLog (''Skipping file '' @ fname f @ '' - older than latest S3 file'')])"
    using assms(1) by (simp add: processFile_skip)
  have second: "processFile E b d w c g =
            (Inr (fst c, snd c + 1),
             [ConsoleLog (''Skipping file '' @ fname g @ '' - older than latest S3 file'')])"
    if "ftype g = ''-''" "extractTimestamp (fname g) = Some t" "w = Some wm" "wm \<noteq> []"
       "js_str_le t wm" for g t wm
  proof -
    have "skipCondition (extractTimestamp (fname g)) w"
      using that by (simp add: skipCondition_def)
    with that(1) show ?thesis by (simp add: processFile_skip)
  qed
  from first second show ?thesis by blast
qed

theorem unmatched_name_skipped_as_older_witness:
  "ftype (entry_ex ''-'' ''notes.txt'') = ''-''
   \<and> extractTimestamp (fname (entry_ex ''-'' ''notes.txt'')) = None
   \<and> processFile env_iso ''bucket'' ''/upload'' (Some ''202401010000'') (0, 0)
        (entry_ex ''-'' ''notes.txt'')
       = (Inr (0, 1), [ConsoleLog ''Skipping file notes.txt - older than latest S3 file''])
   \<and> js_str_le ''202401010000'' ''202401010000''
   \<and> processFile env_iso ''bucket'' ''/upload'' (Some ''202401010000'') (0, 0)
        (entry_ex ''-'' ''UsageAcct202401010000.csv'')
       = (Inr (0, 1),
          [ConsoleLog ''Skipping file UsageAcct202401010000.csv - older than latest S3 file''])"
proof -
  have r1: "ftype (entry_ex ''-'' ''notes.txt'') = ''-''" by code_simp
  have t1: "extractTimestamp (fname (entry_ex ''-'' ''notes.txt'')) = None" by code_simp
  have r2: "ftype (entry_ex ''-'' ''UsageAcct202401010000.csv'') = ''-''" by code_simp
  have t2: "extractTimestamp (fname (entry_ex ''-'' ''UsageAcct202401010000.csv'')) = Some ''202401010000''"
    by code_simp
  have le: "js_str_le ''202401010000'' ''202401010000''" by code_simp
  have n1: "''Skipping file '' @ fname (entry_ex ''-'' ''notes.txt'') @ '' - older than latest S3 file''
     = ''Skipping file notes.txt - older than latest S3 file''" by code_simp
  have n2: "''Skipping file '' @ fname (entry_ex ''-'' ''UsageAcct202401010000.csv'') @ '' - older than latest S3 file''
     = ''Skipping file UsageAcct202401010000.csv - older than latest S3 file''" by code_simp
  note inst = unmatched_name_skipped_as_older [OF r1 t1, of env_iso "''bucket''" "''/upload''"
      "Some ''202401010000''" "(0, 0)"]
  from inst have a: "processFile env_iso ''bucket'' ''/upload'' (Some ''202401010000'') (0, 0)
        (entry_ex ''-'' ''notes.txt'')
       = (Inr (0, 1), [ConsoleLog ''Skipping file notes.txt - older than latest S3 file''])"
    unfolding n1 by simp
  from inst r2 t2 le have "processFile env_iso ''bucket'' ''/upload'' (Some ''202401010000'') (0, 0)
        (entry_ex ''-'' ''UsageAcct202401010000.csv'')
       = (Inr (fst (0::nat, 0::nat), snd (0::nat, 0::nat) + 1),
          [ConsoleLog (''Skipping file '' @ fname (entry_ex ''-'' ''UsageAcct202401010000.csv'') @ '' - older than latest S3 file'')])"
    by blast
  then have b: "processFile env_iso ''bucket'' ''/upload'' (Some ''202401010000'') (0, 0)
        (entry_ex ''-'' ''UsageAcct202401010000.csv'')
       = (Inr (0, 1),
          [ConsoleLog ''Skipping file UsageAcct202401010000.csv - older than latest S3 file''])"
    unfolding n2 by simp
  from r1 t1 a le b show ?thesis by blast
qed

section \<open>Fatal exits, the session and the listing\<close>

lemma processFiles_connect_fails:
  assumes "sftp_connect E cfg = Inl e"
  shows "processFiles E b d cfg =
     (Inl (SftpError (''Failed to connect to SFTP: '' @ error_text e)),
      [SftpConnect cfg] @ snd (disconnect E))"
  using assms
  by (simp add: processFiles_def io_try_finally_def disconnect_returns connect_def
      io_try_catch_def io_call_def io_bind_def io_throw_def)

lemma processFiles_list_fails:
  assumes "sftp_connect E cfg = Inr ()" "sftp_list E d = Inl e"
  shows "processFiles E b d cfg =
     (Inl (SftpError (''Failed to list files in '' @ d @ '': '' @ error_text e)),
      [SftpConnect cfg, SftpList d] @ snd (disconnect E))"
  using assms
  by (simp add: processFiles_def io_try_finally_def disconnect_returns connect_def listFiles_def
      io_try_catch_def io_call_def io_bind_def io_throw_def)

lemma getLatestFile_fails:
  "s3_listObjectsV2 E b = Inl e \<Longrightarrow>
     getLatestFile E b =
       (Inl (S3Error (''Failed to fetch latest S3 file: '' @ error_text e)), [S3ListObjectsV2 b])"
  by (simp add: getLatestFile_def io_try_catch_def io_bind_def io_call_def io_throw_def)

lemma processFiles_sink_listing_fails:
  assumes "sftp_connect E cfg = Inr ()" "sftp_list E d = Inr files" "s3_listObjectsV2 E b = Inl e"
  shows "processFiles E b d cfg =
     (Inl (S3Error (''Failed to fetch latest S3 file: '' @ error_text e)),
      [SftpConnect cfg, SftpList d, S3ListObjectsV2 b] @ snd (disconnect E))"
  using assms getLatestFile_fails [OF assms(3)]
  by (simp add: processFiles_def io_try_finally_def disconnect_returns connect_def listFiles_def
      io_try_catch_def io_call_def io_bind_def io_throw_def)

lemma processFiles_ends_with_disconnect:
  "\<exists>pre. snd (processFiles E b d cfg) = pre @ snd (disconnect E)"
  by (simp add: processFiles_def io_try_finally_def split: sum.splits)

lemma validate_sftp_end:
  "validateAndDecompressGzipBuffer (E\<lparr>sftp_end := x\<rparr>) buf n = validateAndDecompressGzipBuffer E buf n"
  by (simp add: validateAndDecompressGzipBuffer_def cong: if_cong option.case_cong)

lemma transferFile_sftp_end:
  "transferFile (E\<lparr>sftp_end := x\<rparr>) b d c f = transferFile E b d c f"
  by (simp add: transferFile_def downloadFile_def uploadFile_def validate_sftp_end)

lemma processFile_sftp_end:
  "processFile (E\<lparr>sftp_end := x\<rparr>) b d w c f = processFile E b d w c f"
  by (simp add: processFile_def transferFile_sftp_end)

lemma processAll_sftp_end:
  "processAll (E\<lparr>sftp_end := x\<rparr>) b d w c files = processAll E b d w c files"
  by (induction files arbitrary: c) (simp_all add: processFile_sftp_end)

lemma getLatestFile_sftp_end:
  "getLatestFile (E\<lparr>sftp_end := x\<rparr>) b = getLatestFile E b"
  by (simp add: getLatestFile_def cong: if_cong option.case_cong list.case_cong)

lemma io_try_finally_returns:
  "fst fin = Inr u \<Longrightarrow> fst (io_try_finally m fin) = fst m"
  by (simp add: io_try_finally_def)

lemma processFiles_outcome_sftp_end:
  "fst (processFiles (E\<lparr>sftp_end := x\<rparr>) b d cfg) = fst (processFiles E b d cfg)"
  unfolding processFiles_def
  by (simp add: io_try_finally_returns [OF disconnect_returns] connect_def listFiles_def
      getLatestFile_sftp_end processAll_sftp_end)

text \<open>
  Claim C8 (the session is released on every exit). Whatever the collaborators answer, that
  is on normal completion, when files fail, and when connecting, listing or reading the
  sink's keys throws, the trace of \<open>processFiles\<close> ends with the trace of
  \<open>disconnect\<close>: the call of \<open>end\<close> on the session, followed by a warning on the
  console when that call fails. \<open>disconnect\<close> itself always returns, and the outcome of
  \<open>processFiles\<close> is the one it has when \<open>end\<close> succeeds: a failing disconnect raises
  nothing and changes nothing.
\<close>

theorem session_released_on_every_exit:
  "(\<exists>pre. snd (processFiles E b d cfg) = pre @ snd (disconnect E))
   \<and> (snd (disconnect E) = [SftpEnd]
      \<or> (\<exists>e. sftp_end E = Inl e
            \<and> snd (disconnect E) =
                [SftpEnd, ConsoleWarn ''Failed to cleanly disconnect from SFTP:'' e]))
   \<and> fst (disconnect E) = Inr ()
   \<and> fst (processFiles E b d cfg) = fst (processFiles (E\<lparr>sftp_end := Inr ()\<rparr>) b d cfg)"
proof -
  have "snd (disconnect E) = [SftpEnd]
      \<or> (\<exists>e. sftp_end E = Inl e
            \<and> snd (disconnect E) =
                [SftpEnd, ConsoleWarn ''Failed to cleanly disconnect from SFTP:'' e])"
    by (cases "sftp_end E") (simp_all add: disconnect_trace)
  then show ?thesis
    using processFiles_ends_with_disconnect [of E b d cfg]
    by (simp add: disconnect_returns processFiles_outcome_sftp_end)
qed

lemma listed_processFiles:
  "listed (snd (processFiles E b d cfg)) = (if isl (sftp_connect E cfg) then [] else [d])"
proof (cases "sftp_connect E cfg")
  case (Inl e)
  then show ?thesis
    by (simp add: processFiles_connect_fails listed_append disconnect_no_report)
next
  case connected: (Inr u)
  show ?thesis
  proof (cases "sftp_list E d")
    case (Inl e)
    with connected show ?thesis
      by (simp add: processFiles_list_fails listed_append disconnect_no_report)
  next
    case listing: (Inr files)
    show ?thesis
    proof (cases "s3_listObjectsV2 E b")
      case (Inl e)
      with connected listing show ?thesis
        by (simp add: processFiles_sink_listing_fails listed_append disconnect_no_report)
    next
      case (Inr contents)
      with connected listing processFiles_run [of E cfg d files b contents] show ?thesis
        by (auto simp add: listed_append disconnect_no_report processAll_listed)
    qed
  qed
qed

section \<open>Recursive enumeration\<close>

lemma listItems_files:
  assumes desc: "\<And>sub fs t h. descend sub = Some (Inr fs, t) \<Longrightarrow>
                    (h \<in> set fs \<longleftrightarrow> in_tree E sub h)"
    and run: "listItems descend dir items = Some (Inr files, tr)"
  shows "h \<in> set files \<longleftrightarrow>
           (\<exists>item \<in> set items.
              (ftype item \<noteq> ''d'' \<and> h = handle_of dir item)
              \<or> (ftype item = ''d'' \<and> in_tree E (dir @ ''/'' @ fname item) h))"
  using run
proof (induction items arbitrary: files tr)
  case Nil
  then show ?case by simp
next
  case (Cons item items)
  show ?case
  proof (cases "ftype item = ''d''")
    case True
    from Cons.prems True obtain fs t rest t' where
      d: "descend (dir @ ''/'' @ fname item) = Some (Inr fs, t)"
      and r: "listItems descend dir items = Some (Inr rest, t')"
      and f: "files = fs @ rest"
      by (auto split: option.splits sum.splits simp add: prod_eq_iff)
    from Cons.IH [OF r] desc [OF d] f True show ?thesis by auto
  next
    case False
    from Cons.prems False obtain rest t' where
      r: "listItems descend dir items = Some (Inr rest, t')"
      and f: "files = handle_of dir item # rest"
      by (auto split: option.splits sum.splits simp add: prod_eq_iff)
    from Cons.IH [OF r] f False show ?thesis by auto
  qed
qed

lemma in_tree_iff:
  "in_tree E dir h \<longleftrightarrow>
     (\<exists>items. sftp_list E dir = Inr items \<and>
        (\<exists>item \<in> set items.
           (ftype item \<noteq> ''d'' \<and> h = handle_of dir item)
           \<or> (ftype item = ''d'' \<and> in_tree E (dir @ ''/'' @ fname item) h)))"
  by (subst in_tree.simps) auto

lemma listRecursive_exhaustive:
  "listRecursive depth E dir = Some (Inr files, tr) \<Longrightarrow> h \<in> set files \<longleftrightarrow> in_tree E dir h"
proof (induction depth arbitrary: dir files tr h)
  case 0
  then show ?case by simp
next
  case (Suc depth)
  from Suc.prems obtain items tr' where
    l: "sftp_list E dir = Inr items"
    and r: "listItems (listRecursive depth E) dir items = Some (Inr files, tr')"
    by (auto split: option.splits sum.splits simp add: prod_eq_iff)
  have "h \<in> set files \<longleftrightarrow>
           (\<exists>item \<in> set items.
              (ftype item \<noteq> ''d'' \<and> h = handle_of dir item)
              \<or> (ftype item = ''d'' \<and> in_tree E (dir @ ''/'' @ fname item) h))"
    using listItems_files [of "listRecursive depth E" E dir items files tr' h] Suc.IH r
    by blast
  with l show ?case by (subst in_tree_iff) simp
qed

text \<open>
  Claim C9 (remote enumeration is recursive and exhaustive). This is what
  \<open>listRecursive\<close> of the ingest handler does: whenever it returns, the handles it
  returns are exactly the files of the remote tree under the directory
  (\<open>listRecursive_exhaustive\<close>). The enumeration of \<open>processFiles\<close> is not: it lists
  the configured directory and no other (\<open>listed_processFiles\<close>) and passes over
  entries of type \<open>d\<close>. On the remote tree of \<open>env_tree\<close>, where \<open>/upload\<close> holds the
  directory \<open>archive\<close> with a file newer than the watermark, \<open>processFiles\<close> lists
  \<open>/upload\<close> only, fetches the one file directly in it and reports one processed file,
  while \<open>listRecursive\<close> on the same server lists both directories and returns both
  files.
\<close>

theorem processFiles_enumeration_misses_subdirectory:
  "sftp_list env_tree ''/upload'' =
      Inr [entry_ex ''d'' ''archive'', entry_ex ''-'' ''UsageAcct202401020000.csv'']
   \<and> sftp_list env_tree ''/upload/archive'' = Inr [entry_ex ''-'' ''UsageAcct202402010000.csv'']
   \<and> eligible env_tree ''bucket'' (entry_ex ''-'' ''UsageAcct202402010000.csv'')
   \<and> listed (snd (processFiles env_tree ''bucket'' ''/upload'' cfg_ex)) = [''/upload'']
   \<and> fetched (snd (processFiles env_tree ''bucket'' ''/upload'' cfg_ex))
       = [''/upload/UsageAcct202401020000.csv'']
   \<and> fst (processFiles env_tree ''bucket'' ''/upload'' cfg_ex)
       = Inr \<lparr>success = True, message = ''Files processed successfully'',
              processedFiles = 1, skippedFiles = 0\<rparr>
   \<and> listRecursive 3 env_tree ''/upload''
       = Some (Inr [\<lparr>path = ''/upload/archive/UsageAcct202402010000.csv'', file_size = 3, mtime = 0\<rparr>,
                    \<lparr>path = ''/upload/UsageAcct202401020000.csv'', file_size = 3, mtime = 0\<rparr>],
               [SftpList ''/upload'', SftpList ''/upload/archive''])"
  by code_simp

section \<open>Claims about the ledger, the writer and the normaliser\<close>

lemmas io_defs = io_bind_def io_try_catch_def io_call_def io_log_def io_eval_def
  io_return_def io_throw_def



text \<open>
  Claim C7 (a failed write is cleaned up and keeps its error). When the \<open>PutObject\<close>
  request of \<open>upload\<close> throws \<open>e\<close>, the writer next sends \<open>AbortMultipartUpload\<close>
  for the same bucket and key, with the \<open>UploadId\<close> read off \<open>e\<close>; when that request
  throws too, its error goes to the console as \<open>Failed to abort multipart upload:\<close>. In
  both cases \<open>upload\<close> then throws \<open>e\<close> itself.
\<close>

theorem upload_failure_keeps_original_error:
  assumes "put_object W b k body opts = Inl e"
  shows "fst (upload W b k body opts) = Inl e
     \<and> snd (upload W b k body opts) =
         S3WriterPutObject b k body (contentLength opts) (contentType opts)
         # S3AbortMultipartUpload b k (error_UploadId W e)
         # (case abort_multipart_upload W b k (error_UploadId W e) of
              Inr u \<Rightarrow> []
            | Inl abortError \<Rightarrow>
                [ConsoleError ''Failed to abort multipart upload:'' abortError])"
  using assms by (simp add: upload_def io_defs split: sum.splits)

theorem upload_failure_keeps_original_error_witness:
  "put_object writer_down ''bucket'' ''in/a.csv'' [1, 2, 3]
       \<lparr>contentLength = Some 3, contentType = None\<rparr> = Inl (JsError ''Error'' ''AccessDenied'')
   \<and> upload writer_down ''bucket'' ''in/a.csv'' [1, 2, 3]
       \<lparr>contentLength = Some 3, contentType = None\<rparr> =
      (Inl (JsError ''Error'' ''AccessDenied''),
       [S3WriterPutObject ''bucket'' ''in/a.csv'' [1, 2, 3] (Some 3) None,
        S3AbortMultipartUpload ''bucket'' ''in/a.csv'' None,
        ConsoleError ''Failed to abort multipart upload:'' (JsError ''Error'' ''Missing UploadId'')])"
proof -
  have h: "put_object writer_down ''bucket'' ''in/a.csv'' [1, 2, 3]
       \<lparr>contentLength = Some 3, contentType = None\<rparr> = Inl (JsError ''Error'' ''AccessDenied'')"
    by (simp add: writer_down_def)
  have u: "error_UploadId writer_down (JsError ''Error'' ''AccessDenied'') = None"
    by (simp add: writer_down_def)
  have ab: "abort_multipart_upload writer_down ''bucket'' ''in/a.csv'' None
      = Inl (JsError ''Error'' ''Missing UploadId'')"
    by (simp add: writer_down_def)
  from upload_failure_keeps_original_error [OF h] u ab h show ?thesis
    by (simp add: prod_eq_iff)
qed

text \<open>
  Claim C6 (normalisation undoes gzip). zlib is a collaborator, so what it does to a stream
  is a premise: let \<open>G\<close> be a stream that starts with the gzip magic bytes and that
  \<open>gunzip\<close> turns into \<open>C\<close>, which is what \<open>gzip(C)\<close> is. Then normalising \<open>G\<close>
  under a name ending in \<open>.gz\<close> returns the content \<open>C\<close> under the name without that
  suffix. And a buffer with such a name that \<open>gunzip\<close> rejects and that is not a readable
  archive makes the normaliser throw a \<open>CompressionError\<close> whose message carries the
  file name.
\<close>

theorem gzip_normalisation_roundtrip:
  "(endsWith fileName ''.gz'' \<and> take 2 G = GZIP_MAGIC_HEADER \<and> zlib_gunzip E G = Inr C \<longrightarrow>
      fst (validateAndDecompressGzipBuffer E G fileName) =
        Inr \<lparr>buffer = C, name = take (length fileName - 3) fileName\<rparr>
      \<and> take (length fileName - 3) fileName @ ''.gz'' = fileName)
   \<and> (endsWith fileName ''.gz'' \<and> isl (zlib_gunzip E buf) \<and> archive_unreadable E buf \<longrightarrow>
      (\<exists>detail. fst (validateAndDecompressGzipBuffer E buf fileName) =
         Inl (CompressionError
                ((if hasGzipMagicHeader buf then ''Gzip'' else ''ZIP'')
                 @ '' decompression failed for '' @ fileName @ '': '' @ detail))))"
proof -
  have ok: "fst (validateAndDecompressGzipBuffer E G fileName) =
        Inr \<lparr>buffer = C, name = take (length fileName - 3) fileName\<rparr>
      \<and> take (length fileName - 3) fileName @ ''.gz'' = fileName"
    if "endsWith fileName ''.gz''" "take 2 G = GZIP_MAGIC_HEADER" "zlib_gunzip E G = Inr C"
    using gunzip_succeeds [OF that] removeSuffix_gz [OF that(1)] removeSuffix_gz_append [OF that(1)]
    by simp
  have bad: "\<exists>detail. fst (validateAndDecompressGzipBuffer E buf fileName) =
         Inl (CompressionError
                ((if hasGzipMagicHeader buf then ''Gzip'' else ''ZIP'')
                 @ '' decompression failed for '' @ fileName @ '': '' @ detail))"
    if gz: "endsWith fileName ''.gz''" and ng: "isl (zlib_gunzip E buf)"
      and na: "archive_unreadable E buf"
  proof (cases "hasGzipMagicHeader buf")
    case True
    from ng obtain e where "zlib_gunzip E buf = Inl e" by (auto simp add: isl_def)
    from gunzip_fails [OF gz True this] True show ?thesis by auto
  next
    case False
    from unzip_fails [OF gz False na] False show ?thesis by auto
  qed
  from ok bad show ?thesis by blast
qed

theorem gzip_normalisation_roundtrip_witness:
  "endsWith ''f.gz'' ''.gz''
   \<and> take 2 [0x1f, 0x8b, 104, 105] = GZIP_MAGIC_HEADER
   \<and> zlib_gunzip env_gz [0x1f, 0x8b, 104, 105] = Inr [104, 105]
   \<and> fst (validateAndDecompressGzipBuffer env_gz [0x1f, 0x8b, 104, 105] ''f.gz'') =
        Inr \<lparr>buffer = [104, 105], name = ''f''\<rparr>
   \<and> isl (zlib_gunzip env_gz [104, 105]) \<and> archive_unreadable env_gz [104, 105]
   \<and> (\<exists>detail. fst (validateAndDecompressGzipBuffer env_gz [104, 105] ''f.gz'') =
         Inl (CompressionError (''ZIP decompression failed for f.gz: '' @ detail)))"
proof -
  have h1: "endsWith ''f.gz'' ''.gz''" by code_simp
  have h2: "take 2 [0x1f, 0x8b, 104, 105] = GZIP_MAGIC_HEADER" by code_simp
  have h3: "zlib_gunzip env_gz [0x1f, 0x8b, 104, 105] = Inr [104, 105]" by code_simp
  have h4: "isl (zlib_gunzip env_gz [104, 105])" by code_simp
  have h5: "archive_unreadable env_gz [104, 105]" by code_simp
  have h6: "\<not> hasGzipMagicHeader [104, 105]" by code_simp
  have n: "take (length ''f.gz'' - 3) ''f.gz'' = ''f''" by simp
  from gzip_normalisation_roundtrip [of "''f.gz''" "[0x1f, 0x8b, 104, 105]" env_gz "[104, 105]" "[104, 105]"]
    h1 h2 h3 h4 h5
  have a: "fst (validateAndDecompressGzipBuffer env_gz [0x1f, 0x8b, 104, 105] ''f.gz'') =
        Inr \<lparr>buffer = [104, 105], name = take (length ''f.gz'' - 3) ''f.gz''\<rparr>"
    and b: "\<exists>detail. fst (validateAndDecompressGzipBuffer env_gz [104, 105] ''f.gz'') =
         Inl (CompressionError
                ((if hasGzipMagicHeader [104, 105] then ''Gzip'' else ''ZIP'')
                 @ '' decompression failed for '' @ ''f.gz'' @ '': '' @ detail))"
    by blast+
  from a have a': "fst (validateAndDecompressGzipBuffer env_gz [0x1f, 0x8b, 104, 105] ''f.gz'') =
        Inr \<lparr>buffer = [104, 105], name = ''f''\<rparr>"
    unfolding n .
  from b h6 have b': "\<exists>detail. fst (validateAndDecompressGzipBuffer env_gz [104, 105] ''f.gz'') =
         Inl (CompressionError (''ZIP decompression failed for f.gz: '' @ detail))"
    by simp
  from h1 h2 h3 h4 h5 a' b' show ?thesis by blast
qed

text \<open>
  Claim C10 (the magic-header check on short buffers). The check reads only indices inside
  the buffer. On a buffer of fewer than two bytes it reads nothing and answers \<open>false\<close>;
  a file named \<open>*.gz\<close> with such a buffer therefore goes to the archive fallback (unzipper
  is the first and only decoder called, gunzip is not), and when the buffer is not a readable
  archive the outcome is the \<open>CompressionError\<close> of that fallback.
\<close>

theorem magic_header_check_short_buffer:
  "(\<forall>i \<in> set (snd (hasGzipMagicHeader_eval buf)). i < length buf)
   \<and> (length buf < 2 \<longrightarrow>
        \<not> hasGzipMagicHeader buf
        \<and> snd (hasGzipMagicHeader_eval buf) = []
        \<and> (endsWith fileName ''.gz'' \<longrightarrow>
             (\<exists>rest. snd (validateAndDecompressGzipBuffer E buf fileName) = UnzipperOpen buf # rest
                \<and> ZlibGunzip buf \<notin> set rest)
             \<and> (archive_unreadable E buf \<longrightarrow>
                 (\<exists>detail. fst (validateAndDecompressGzipBuffer E buf fileName) =
                    Inl (CompressionError
                           (''ZIP decompression failed for '' @ fileName @ '': '' @ detail))))))"
proof -
  have reads: "\<forall>i \<in> set (snd (hasGzipMagicHeader_eval buf)). i < length buf"
    by (auto simp add: hasGzipMagicHeader_eval_def)
  have short: "\<not> hasGzipMagicHeader buf" "snd (hasGzipMagicHeader_eval buf) = []"
    if "length buf < 2"
    using that by (simp_all add: hasGzipMagicHeader_def hasGzipMagicHeader_eval_def)
  from reads short unzip_trace [of fileName buf E] unzip_fails [of fileName buf E]
  show ?thesis by blast
qed

theorem magic_header_check_short_buffer_witness:
  "length [0x1f :: byte] < 2
   \<and> endsWith ''f.gz'' ''.gz''
   \<and> archive_unreadable env_gz [0x1f]
   \<and> \<not> hasGzipMagicHeader [0x1f]
   \<and> snd (hasGzipMagicHeader_eval [0x1f]) = []
   \<and> (\<exists>rest. snd (validateAndDecompressGzipBuffer env_gz [0x1f] ''f.gz'') = UnzipperOpen [0x1f] # rest
        \<and> ZlibGunzip [0x1f] \<notin> set rest)
   \<and> (\<exists>detail. fst (validateAndDecompressGzipBuffer env_gz [0x1f] ''f.gz'') =
         Inl (CompressionError (''ZIP decompression failed for '' @ ''f.gz'' @ '': '' @ detail)))"
proof -
  have h1: "length [0x1f :: byte] < 2" by simp
  have h2: "endsWith ''f.gz'' ''.gz''" by code_simp
  have h3: "archive_unreadable env_gz [0x1f]" by code_simp
  from magic_header_check_short_buffer [of "[0x1f]" "''f.gz''" env_gz] h1 h2 h3
  show ?thesis by blast
qed

end
